theory Spec2Isabelle
  imports Main "HOL-Library.Multiset" "HOL-Library.Sublist" "HOL-Library.AList" "HOL-Library.Word"
begin

section \<open>Data model\<close>

text \<open>
  The types of package \<open>kabanerov1alpha2\<close> that the pipeline utilities read and write,
  with the fields those utilities use.  Go strings are byte sequences, so
  \<^typ>\<open>string\<close> (a list of 8-bit characters) is their model; \<open>len\<close> is
  \<^const>\<open>length\<close>.
\<close>

type_synonym byte = "8 word"

record GitReleaseInfo =
  Hostname :: string
  Organization :: string
  Project :: string
  Release :: string
  AssetName :: string

text \<open>\<open>GitReleaseSpec\<close> carries the same coordinates plus the certificate switch.\<close>

record GitReleaseSpec = GitReleaseInfo +
  SkipCertVerification :: bool

record HttpsProtocolFile =
  https_Url :: string
  https_SkipCertVerification :: bool

record PipelineSpec =
  spec_Id :: string
  Sha256 :: string
  Https :: HttpsProtocolFile
  spec_GitRelease :: GitReleaseSpec

record RepositoryAssetStatus =
  as_Name :: string
  as_Namespace :: string
  as_Group :: string
  as_Version :: string
  as_Kind :: string
  as_Digest :: string
  as_Status :: string
  as_StatusMessage :: string

record PipelineStatus =
  ps_Name :: string
  ps_Url :: string
  ps_GitRelease :: GitReleaseInfo
  ps_Digest :: string
  ActiveAssets :: "RepositoryAssetStatus list"

text \<open>
  \<open>ComponentSpec\<close> and \<open>ComponentStatus\<close> are interfaces; \<open>GetVersions\<close>
  yields the versions, each with \<open>GetVersion\<close> and \<open>GetPipelines\<close>.
\<close>

record ComponentSpecVersion =
  spec_Version :: string
  spec_Pipelines :: "PipelineSpec list"

record ComponentStatusVersion =
  status_Version :: string
  status_Pipelines :: "PipelineStatus list"

type_synonym ComponentSpec = "ComponentSpecVersion list"
type_synonym ComponentStatus = "ComponentStatusVersion list"

record OwnerReference =
  or_APIVersion :: string
  or_Kind :: string
  or_Name :: string
  UID :: string

text \<open>
  An \<open>unstructured.Unstructured\<close> object: its type metadata, name, namespace and
  owner references; the rest of the document is carried along unread.
\<close>

record Unstructured =
  u_Group :: string
  u_Version :: string
  u_Kind :: string
  u_Name :: string
  u_Namespace :: string
  u_OwnerReferences :: "OwnerReference list"
  u_Content :: string

record StackAsset =
  sa_Name :: string
  sa_Group :: string
  sa_Version :: string
  sa_Kind :: string
  sa_Sha256 :: string
  Yaml :: Unstructured

text \<open>A key to the pipeline use count map.\<close>

record PipelineUseMapKey =
  Url :: string
  GitRelease :: GitReleaseInfo
  Digest :: string

text \<open>A specific version of a pipeline zip in a specific version of a stack.\<close>

record pipelineVersion =
  PipelineUseMapKey :: PipelineUseMapKey
  version :: string

text \<open>
  Errors.  \<open>xerror\<close> is an error value made by a library (the cluster client, the
  transport, a decoder): \<open>errors.IsNotFound\<close> and \<open>Error()\<close> are all the code asks
  of it.  \<open>error\<close> adds the errors the package makes itself, one constructor for
  each \<open>fmt.Errorf\<close>/\<open>errors.New\<close> of the source, and \<open>io.EOF\<close>.
\<close>

datatype xerror = XError (IsNotFound: bool) (Error: string)

datatype error =
    ErrExternal xerror
  | EOF
  | ErrNoRetrievalInformation
  | ErrEOFBeforeEndOfFile
  | ErrManifestGzip
  | ErrManifestTar
  | ErrReadingArchive string error
  | ErrUnableToReadManifestYaml
  | ErrArchiveChecksum string "byte list" "byte list"
  | ErrNotInManifest string
  | ErrDecoding string error
  | ErrProcessingDirectives string xerror
  | ErrIndexChecksum "byte list" "byte list" string
  | ErrFileType string
  | ErrVersionNotFound pipelineVersion

text \<open>
  The value in the pipeline use count map.  \<open>useCount\<close> is an \<open>int64\<close>; it is
  incremented at most once for each pipeline entry of the status and of the spec, both
  held in memory, so it stays far inside the 64-bit range and is modelled by
  \<^typ>\<open>int\<close>.
\<close>

record PipelineUseMapValue =
  PipelineStatus :: PipelineStatus
  useCount :: int
  manifests :: "StackAsset list"
  ManifestError :: "error option"

text \<open>
  \<open>PipelineUseMap\<close> is a Go map from keys to pointers to values.  Each key owns its
  value, so an update through the pointer is an update of the entry.  The model is an
  association list with distinct keys, looked up by \<^const>\<open>map_of\<close>.
\<close>

type_synonym PipelineUseMap = "(PipelineUseMapKey \<times> PipelineUseMapValue) list"

section \<open>Use counts\<close>

definition emptyGitReleaseInfo :: GitReleaseInfo where
  "emptyGitReleaseInfo =
     \<lparr>Hostname = [], Organization = [], Project = [], Release = [], AssetName = []\<rparr>"

definition gitReleaseSpecToGitReleaseInfo :: "GitReleaseSpec \<Rightarrow> GitReleaseInfo" where
  "gitReleaseSpecToGitReleaseInfo gitRelease =
     \<lparr>Hostname = Hostname gitRelease, Organization = Organization gitRelease,
      Project = Project gitRelease, Release = Release gitRelease,
      AssetName = AssetName gitRelease\<rparr>"

text \<open>
  The key of a status pipeline, as built three times in \<open>ActivatePipelines\<close>.
  \<open>IsUsable\<close> is a method of the API types; it is a parameter here.
\<close>

definition statusKey :: "(GitReleaseInfo \<Rightarrow> bool) \<Rightarrow> PipelineStatus \<Rightarrow> PipelineUseMapKey" where
  "statusKey isUsable pipeline =
     (if isUsable (ps_GitRelease pipeline)
      then \<lparr>Url = [], GitRelease = ps_GitRelease pipeline, Digest = ps_Digest pipeline\<rparr>
      else \<lparr>Url = ps_Url pipeline, GitRelease = emptyGitReleaseInfo, Digest = ps_Digest pipeline\<rparr>)"

definition specKey :: "(GitReleaseSpec \<Rightarrow> bool) \<Rightarrow> PipelineSpec \<Rightarrow> PipelineUseMapKey" where
  "specKey isUsable pipeline =
     (if isUsable (spec_GitRelease pipeline)
      then \<lparr>Url = [], GitRelease = gitReleaseSpecToGitReleaseInfo (spec_GitRelease pipeline),
            Digest = Sha256 pipeline\<rparr>
      else \<lparr>Url = https_Url (Https pipeline), GitRelease = emptyGitReleaseInfo,
            Digest = Sha256 pipeline\<rparr>)"

text \<open>First loop: count how many times each pipeline has been used.\<close>

definition seedPipeline ::
  "(GitReleaseInfo \<Rightarrow> bool) \<Rightarrow> PipelineStatus \<Rightarrow> PipelineUseMap \<Rightarrow> PipelineUseMap" where
  "seedPipeline isUsable pipeline assetUseMap =
     (let key = statusKey isUsable pipeline;
          value = (case map_of assetUseMap key of
                     None \<Rightarrow> \<lparr>PipelineStatus = pipeline, useCount = 0, manifests = [],
                              ManifestError = None\<rparr>
                   | Some v \<Rightarrow> v)
      in AList.update key (value\<lparr>useCount := useCount value + 1\<rparr>) assetUseMap)"

definition seedUseMap :: "(GitReleaseInfo \<Rightarrow> bool) \<Rightarrow> ComponentStatus \<Rightarrow> PipelineUseMap" where
  "seedUseMap isUsable status =
     fold (\<lambda>curStatus. fold (seedPipeline isUsable) (status_Pipelines curStatus)) status []"

text \<open>
  \<open>assetsToDecrement\<close> and \<open>assetsToIncrement\<close> are maps to \<open>bool\<close> that only ever
  hold \<open>true\<close>: sets.  The model keeps the members in a duplicate-free list.
\<close>

definition setAdd :: "'a \<Rightarrow> 'a list \<Rightarrow> 'a list" where
  "setAdd x xs = (if x \<in> set xs then xs else xs @ [x])"

definition statusVersions ::
  "(GitReleaseInfo \<Rightarrow> bool) \<Rightarrow> ComponentStatus \<Rightarrow> pipelineVersion list" where
  "statusVersions isUsable status =
     fold (\<lambda>curStatus. fold (\<lambda>pipeline assetsToDecrement.
             setAdd \<lparr>PipelineUseMapKey = statusKey isUsable pipeline,
                     version = status_Version curStatus\<rparr> assetsToDecrement)
           (status_Pipelines curStatus)) status []"

text \<open>
  The loop over the spec: a version of the spec cancels the same version of the status,
  or is new.  \<open>certVerification\<close> remembers the certificate switch of each key.
\<close>

type_synonym versionSets =
  "pipelineVersion list \<times> pipelineVersion list \<times> (PipelineUseMapKey \<rightharpoonup> bool)"

definition specPipeline ::
  "(GitReleaseSpec \<Rightarrow> bool) \<Rightarrow> string \<Rightarrow> PipelineSpec \<Rightarrow> versionSets \<Rightarrow> versionSets" where
  "specPipeline isUsable curVersion pipeline sets =
     (case sets of (assetsToDecrement, assetsToIncrement, certVerification) \<Rightarrow>
        let key = specKey isUsable pipeline;
            skip = (if isUsable (spec_GitRelease pipeline)
                    then SkipCertVerification (spec_GitRelease pipeline)
                    else https_SkipCertVerification (Https pipeline));
            cur = \<lparr>PipelineUseMapKey = key, version = curVersion\<rparr>
        in if cur \<in> set assetsToDecrement
           then (removeAll cur assetsToDecrement, assetsToIncrement, certVerification(key \<mapsto> skip))
           else (assetsToDecrement, setAdd cur assetsToIncrement, certVerification(key \<mapsto> skip)))"

definition specVersions ::
  "(GitReleaseSpec \<Rightarrow> bool) \<Rightarrow> ComponentSpec \<Rightarrow> versionSets \<Rightarrow> versionSets" where
  "specVersions isUsable spec sets =
     fold (\<lambda>curSpec. fold (specPipeline isUsable (spec_Version curSpec)) (spec_Pipelines curSpec))
       spec sets"

text \<open>Now go through the sets and update the use counts.\<close>

fun decrementLoop :: "pipelineVersion list \<Rightarrow> PipelineUseMap \<Rightarrow> error + PipelineUseMap" where
  "decrementLoop [] assetUseMap = Inr assetUseMap"
| "decrementLoop (cur # rest) assetUseMap =
     (case map_of assetUseMap (PipelineUseMapKey cur) of
        None \<Rightarrow> Inl (ErrVersionNotFound cur)
      | Some value \<Rightarrow>
          decrementLoop rest
            (AList.update (PipelineUseMapKey cur) (value\<lparr>useCount := useCount value - 1\<rparr>)
               assetUseMap))"

definition newUseMapValue :: "PipelineUseMapKey \<Rightarrow> PipelineUseMapValue" where
  "newUseMapValue cur =
     \<lparr>PipelineStatus = \<lparr>ps_Name = [], ps_Url = Url cur, ps_GitRelease = GitRelease cur,
                         ps_Digest = Digest cur, ActiveAssets = []\<rparr>,
      useCount = 0, manifests = [], ManifestError = None\<rparr>"

definition incrementStep :: "pipelineVersion \<Rightarrow> PipelineUseMap \<Rightarrow> PipelineUseMap" where
  "incrementStep cur assetUseMap =
     (let value = (case map_of assetUseMap (PipelineUseMapKey cur) of
                     None \<Rightarrow> newUseMapValue (PipelineUseMapKey cur)
                   | Some v \<Rightarrow> v)
      in AList.update (PipelineUseMapKey cur) (value\<lparr>useCount := useCount value + 1\<rparr>)
           assetUseMap)"

definition incrementLoop :: "pipelineVersion list \<Rightarrow> PipelineUseMap \<Rightarrow> PipelineUseMap" where
  "incrementLoop assetsToIncrement assetUseMap = fold incrementStep assetsToIncrement assetUseMap"

text \<open>
  Lines 60 to 137 of \<open>ActivatePipelines\<close>.  Go visits the members of a map in an
  order it does not specify: \<open>orderDec\<close> and \<open>orderInc\<close> stand for the orders the two
  \<open>range\<close> loops happen to take.
\<close>

definition updateUseCounts ::
  "(GitReleaseInfo \<Rightarrow> bool) \<Rightarrow> (GitReleaseSpec \<Rightarrow> bool) \<Rightarrow>
   (pipelineVersion list \<Rightarrow> pipelineVersion list) \<Rightarrow> (pipelineVersion list \<Rightarrow> pipelineVersion list) \<Rightarrow>
   ComponentSpec \<Rightarrow> ComponentStatus \<Rightarrow> error + PipelineUseMap \<times> (PipelineUseMapKey \<rightharpoonup> bool)" where
  "updateUseCounts statusUsable specUsable orderDec orderInc spec status =
     (let assetUseMap = seedUseMap statusUsable status;
          sets = specVersions specUsable spec (statusVersions statusUsable status, [], Map.empty)
      in case sets of (assetsToDecrement, assetsToIncrement, certVerification) \<Rightarrow>
           (case decrementLoop (orderDec assetsToDecrement) assetUseMap of
              Inl err \<Rightarrow> Inl err
            | Inr decremented \<Rightarrow>
                Inr (incrementLoop (orderInc assetsToIncrement) decremented, certVerification)))"

section \<open>The world outside\<close>

text \<open>
  What the code observes of its collaborators is written down as it happens: every
  line it logs and every call it makes to the cluster client, to manifestival and to
  the transport.
\<close>

type_synonym GroupVersionKind = "string \<times> string \<times> string"

record ObjectKey =
  key_Namespace :: string
  key_Name :: string

datatype event =
    LogHeaderNames "string list"
  | LogNoChecksum string
  | LogIndexChecksum "byte list" "byte list" string
  | LogDeletingAssets int PipelineUseMapValue
  | LogCreatingAssets int PipelineUseMapValue
  | LogErrorRetrievingManifests error PipelineUseMapValue
  | LogUnableToCheckAsset xerror string
  | LogManifestsNotAvailable error string
  | LogResources "Unstructured list"
  | LogErrorTransforming xerror string
  | LogApplyingResources "Unstructured list"
  | LogErrorInstalling xerror string
  | LogUnableToAddOwner xerror string
  | LogIgnoringDelete string string string
  | LogUnableToRetrieveAsset xerror string string string
  | LogUnableToDeleteAsset xerror string string string
  | LogUnableToDeleteOwner xerror string string string
  | CallGetStackDataUsingGit GitReleaseInfo bool string
  | CallGetFromCache string bool
  | CallGet GroupVersionKind ObjectKey
  | CallUpdate Unstructured
  | CallDelete Unstructured
  | CallApply Unstructured

text \<open>
  The state threaded through the code: the world of the collaborators (of a type the
  code knows nothing about), the record of what was logged and called, and the
  rendering context, a Go map that \<open>ActivatePipelines\<close> writes to.
\<close>

record 's state =
  world :: 's
  trace :: "event list"
  renderingContext :: "(string \<times> string) list"

definition record_event :: "event \<Rightarrow> 's state \<Rightarrow> 's state" where
  "record_event e st = st\<lparr>trace := trace st @ [e]\<rparr>"

text \<open>Stack archive \<open>manifest.yaml\<close>.\<close>

record StackContents =
  File :: string
  sc_Sha256 :: string

record StackManifest =
  Contents :: "StackContents list"

text \<open>
  An \<open>io.Reader\<close> is the list of the answers its \<open>Read\<close> calls will give: the bytes
  and the error (\<open>nil\<close>, \<open>io.EOF\<close> or another).  A reader with no answer left
  returns no bytes and \<open>io.EOF\<close>.
\<close>

datatype readErr = ReadNil | ReadEOF | ReadErr xerror

type_synonym Reader = "(byte list \<times> readErr) list"

text \<open>
  What \<open>tar.Reader.Next\<close> returns for one entry: the header's name and size, and the
  reader of the entry's bytes.
\<close>

record tarEntry =
  header_Name :: string
  header_Size :: nat
  tarReader :: Reader

text \<open>
  The collaborators.  The pure ones: \<open>IsUsable\<close> of the two git release types, the
  orders in which Go ranges over the four maps, \<open>sha256.Sum256\<close>, the path of
  \<open>url.Parse\<close>, \<open>gzip.NewReader\<close> with \<open>tar.NewReader\<close> (\<open>None\<close> when the gzip
  header is bad; else the entries \<open>Next\<close> returns, and whether they end with
  \<open>io.EOF\<close> rather than another error), \<open>yml.Unmarshal\<close> into a manifest that
  may hold earlier contents, the directive processor's \<open>Render\<close>, and the YAML
  document decoder (the objects decoded, and the error that ended them when it is not
  \<open>io.EOF\<close>).  The ones that act on the world: the two transports, the cluster
  client, and manifestival's \<open>Transform\<close> (with the owner and the namespace to
  inject) and \<open>Apply\<close>.
\<close>

record 's env =
  statusUsable :: "GitReleaseInfo \<Rightarrow> bool"
  specUsable :: "GitReleaseSpec \<Rightarrow> bool"
  orderDecrement :: "pipelineVersion list \<Rightarrow> pipelineVersion list"
  orderIncrement :: "pipelineVersion list \<Rightarrow> pipelineVersion list"
  orderDelete :: "PipelineUseMap \<Rightarrow> PipelineUseMap"
  orderEnsure :: "PipelineUseMap \<Rightarrow> PipelineUseMap"
  sha256_Sum256 :: "byte list \<Rightarrow> byte list"
  url_Parse :: "string \<Rightarrow> xerror + string"
  openArchive :: "byte list \<Rightarrow> (tarEntry list \<times> bool) option"
  yml_Unmarshal :: "byte list \<Rightarrow> StackManifest \<Rightarrow> xerror + StackManifest"
  Render :: "byte list \<Rightarrow> (string \<times> string) list \<Rightarrow> xerror + byte list"
  yaml_Decode :: "byte list \<Rightarrow> Unstructured list \<times> xerror option"
  GetStackDataUsingGit :: "GitReleaseInfo \<Rightarrow> bool \<Rightarrow> string \<Rightarrow> 's \<Rightarrow> (xerror + byte list) \<times> 's"
  GetFromCache :: "string \<Rightarrow> bool \<Rightarrow> 's \<Rightarrow> (xerror + byte list) \<times> 's"
  client_Get :: "GroupVersionKind \<Rightarrow> ObjectKey \<Rightarrow> 's \<Rightarrow> (xerror + Unstructured) \<times> 's"
  client_Update :: "Unstructured \<Rightarrow> 's \<Rightarrow> xerror option \<times> 's"
  client_Delete :: "Unstructured \<Rightarrow> 's \<Rightarrow> xerror option \<times> 's"
  mf_Transform :: "OwnerReference \<Rightarrow> string \<Rightarrow> Unstructured \<Rightarrow> xerror + Unstructured"
  mf_Apply :: "Unstructured \<Rightarrow> 's \<Rightarrow> xerror option \<times> 's"

section \<open>Retrieving and decoding an archive\<close>

definition DownloadToByte ::
  "'s env \<Rightarrow> string \<Rightarrow> string \<Rightarrow> GitReleaseInfo \<Rightarrow> bool \<Rightarrow> 's state \<Rightarrow> (error + byte list) \<times> 's state" where
  "DownloadToByte e namespace url gitRelease skipCertVerification st =
     (if statusUsable e gitRelease then
        (case GetStackDataUsingGit e gitRelease skipCertVerification namespace (world st) of
           (r, w) \<Rightarrow>
             (case r of Inl err \<Rightarrow> Inl (ErrExternal err) | Inr bytes \<Rightarrow> Inr bytes,
              record_event (CallGetStackDataUsingGit gitRelease skipCertVerification namespace)
                (st\<lparr>world := w\<rparr>)))
      else if length url \<noteq> 0 then
        (case GetFromCache e url skipCertVerification (world st) of
           (r, w) \<Rightarrow>
             (case r of Inl err \<Rightarrow> Inl (ErrExternal err) | Inr bytes \<Rightarrow> Inr bytes,
              record_event (CallGetFromCache url skipCertVerification) (st\<lparr>world := w\<rparr>)))
      else (Inl ErrNoRetrievalInformation, st))"

text \<open>Read X bytes from reader.  \<open>b\<close> holds the bytes read so far.\<close>

fun readBytes :: "nat \<Rightarrow> Reader \<Rightarrow> byte list \<Rightarrow> error + byte list" where
  "readBytes bytesLeft [] b =
     (if bytesLeft = 0 then Inr b else Inl ErrEOFBeforeEndOfFile)"
| "readBytes bytesLeft ((d, err) # r) b =
     (if bytesLeft = 0 then Inr b
      else let i = take bytesLeft d; left = bytesLeft - length i
           in case err of
                ReadNil \<Rightarrow> readBytes left r (b @ i)
              | ReadEOF \<Rightarrow> if left \<noteq> 0 then Inl ErrEOFBeforeEndOfFile else Inr (b @ i)
              | ReadErr x \<Rightarrow> Inl (ErrExternal x))"

definition readBytesFromReader :: "nat \<Rightarrow> Reader \<Rightarrow> error + byte list" where
  "readBytesFromReader size' r = readBytes size' r []"

definition TrimPrefix :: "string \<Rightarrow> string \<Rightarrow> string" where
  "TrimPrefix s p = (if prefix p s then drop (length p) s else s)"

definition HasSuffix :: "string \<Rightarrow> string \<Rightarrow> bool" where
  "HasSuffix s sfx = suffix sfx s"

text \<open>
  \<open>hex.DecodeString\<close> and \<open>hex.EncodeToString\<close>.  Both cases of the letters decode;
  an odd length and a character that is no hex digit are errors.
\<close>

definition fromHexChar :: "char \<Rightarrow> nat option" where
  "fromHexChar c =
     (let n = (of_char c :: nat)
      in if 48 \<le> n \<and> n \<le> 57 then Some (n - 48)
         else if 97 \<le> n \<and> n \<le> 102 then Some (n - 87)
         else if 65 \<le> n \<and> n \<le> 70 then Some (n - 55)
         else None)"

definition InvalidByteError :: "char \<Rightarrow> xerror" where
  "InvalidByteError c = XError False (''encoding/hex: invalid byte: '' @ [c])"

definition ErrLength :: xerror where
  "ErrLength = XError False ''encoding/hex: odd length hex string''"

fun hex_DecodeString :: "string \<Rightarrow> xerror + byte list" where
  "hex_DecodeString [] = Inr []"
| "hex_DecodeString [p] =
     (case fromHexChar p of None \<Rightarrow> Inl (InvalidByteError p) | Some a \<Rightarrow> Inl ErrLength)"
| "hex_DecodeString (p # q # rest) =
     (case fromHexChar p of
        None \<Rightarrow> Inl (InvalidByteError p)
      | Some a \<Rightarrow>
          (case fromHexChar q of
             None \<Rightarrow> Inl (InvalidByteError q)
           | Some b \<Rightarrow>
               (case hex_DecodeString rest of
                  Inl err \<Rightarrow> Inl err
                | Inr decoded \<Rightarrow> Inr (word_of_nat (a * 16 + b) # decoded))))"

definition hextable :: string where
  "hextable = ''0123456789abcdef''"

definition hex_EncodeToString :: "byte list \<Rightarrow> string" where
  "hex_EncodeToString src =
     concat (map (\<lambda>v. [hextable ! (unat v div 16), hextable ! (unat v mod 16)]) src)"

text \<open>\<open>var c_sum [32]byte; copy(c_sum[:], decoded)\<close>: the first 32 bytes, zeros after them.\<close>

definition copy32 :: "byte list \<Rightarrow> byte list" where
  "copy32 decoded = take 32 decoded @ replicate (32 - length decoded) 0"

text \<open>Apply the Kabanero yaml directive processor.\<close>

definition processManifest ::
  "'s env \<Rightarrow> byte list \<Rightarrow> (string \<times> string) list \<Rightarrow> string \<Rightarrow> string \<Rightarrow> StackAsset list \<times> error" where
  "processManifest e b ctx filename assetSumString =
     (case Render e b ctx of
        Inl err \<Rightarrow> ([], ErrProcessingDirectives filename err)
      | Inr rb \<Rightarrow>
          (case yaml_Decode e rb of
             (outs, err) \<Rightarrow>
               (map (\<lambda>out. \<lparr>sa_Name = u_Name out, sa_Group = u_Group out,
                            sa_Version = u_Version out, sa_Kind = u_Kind out,
                            sa_Sha256 = assetSumString, Yaml = out\<rparr>) outs,
                case err of None \<Rightarrow> EOF | Some x \<Rightarrow> ErrExternal x)))"

text \<open>First pass of \<open>decodeManifests\<close>: read the \<open>manifest.yaml\<close> from the stack archive.\<close>

fun readManifestYaml ::
  "'s env \<Rightarrow> tarEntry list \<Rightarrow> bool \<Rightarrow> StackManifest \<Rightarrow> bool \<Rightarrow> string list \<Rightarrow>
   error + StackManifest \<times> bool \<times> string list" where
  "readManifestYaml e [] cleanEnd stackmanifest foundManifest headers =
     (if cleanEnd then Inr (stackmanifest, foundManifest, headers) else Inl ErrManifestTar)"
| "readManifestYaml e (header # rest) cleanEnd stackmanifest foundManifest headers =
     (if TrimPrefix (header_Name header) ''./'' = ''manifest.yaml'' then
        (case readBytesFromReader (header_Size header) (tarReader header) of
           Inl err \<Rightarrow> Inl (ErrReadingArchive (header_Name header) err)
         | Inr b \<Rightarrow>
             (case yml_Unmarshal e b stackmanifest of
                Inl err \<Rightarrow> Inl (ErrExternal err)
              | Inr unmarshalled \<Rightarrow>
                  readManifestYaml e rest cleanEnd unmarshalled True
                    (headers @ [header_Name header])))
      else readManifestYaml e rest cleanEnd stackmanifest foundManifest
             (headers @ [header_Name header]))"

text \<open>
  Checksum: look the file that was read up in the index and compare sha256.  The loop
  over the index carries \<open>match\<close>, \<open>assetSumString\<close> and the lines logged.
\<close>

fun lookupChecksum ::
  "string \<Rightarrow> byte list \<Rightarrow> StackContents list \<Rightarrow> bool \<Rightarrow> string \<Rightarrow> event list \<Rightarrow>
   (error + bool \<times> string) \<times> event list" where
  "lookupChecksum name b_sum [] match assetSumString logged =
     (Inr (match, assetSumString), logged)"
| "lookupChecksum name b_sum (content # rest) match assetSumString logged =
     (if File content = TrimPrefix name ''./'' then
        (if sc_Sha256 content \<noteq> [] then
           (case hex_DecodeString (sc_Sha256 content) of
              Inl err \<Rightarrow> (Inl (ErrExternal err), logged)
            | Inr decoded \<Rightarrow>
                if b_sum \<noteq> copy32 decoded
                then (Inl (ErrArchiveChecksum name (copy32 decoded) b_sum), logged)
                else lookupChecksum name b_sum rest True (sc_Sha256 content) logged)
         else lookupChecksum name b_sum rest True (sc_Sha256 content)
                (logged @ [LogNoChecksum name]))
      else lookupChecksum name b_sum rest match assetSumString logged)"

text \<open>Second pass: re-read the archive and validate against the archive \<open>manifest.yaml\<close>.\<close>

fun validateArchive ::
  "'s env \<Rightarrow> (string \<times> string) list \<Rightarrow> StackManifest \<Rightarrow> tarEntry list \<Rightarrow> bool \<Rightarrow>
   StackAsset list \<Rightarrow> event list \<Rightarrow> (error + StackAsset list) \<times> event list" where
  "validateArchive e ctx stackmanifest [] cleanEnd manifests' logged =
     (if cleanEnd then (Inr manifests', logged) else (Inl ErrManifestTar, logged))"
| "validateArchive e ctx stackmanifest (header # rest) cleanEnd manifests' logged =
     (if TrimPrefix (header_Name header) ''./'' = ''manifest.yaml'' then
        validateArchive e ctx stackmanifest rest cleanEnd manifests' logged
      else if HasSuffix (header_Name header) ''.yaml'' then
        (case readBytesFromReader (header_Size header) (tarReader header) of
           Inl err \<Rightarrow> (Inl (ErrReadingArchive (header_Name header) err), logged)
         | Inr b \<Rightarrow>
             (case lookupChecksum (header_Name header) (sha256_Sum256 e b)
                     (Contents stackmanifest) False [] logged of
                (Inl err, logged1) \<Rightarrow> (Inl err, logged1)
              | (Inr (match, assetSumString), logged1) \<Rightarrow>
                  if match \<noteq> True
                  then (Inl (ErrNotInManifest (header_Name header)), logged1)
                  else (case processManifest e b ctx (header_Name header) assetSumString of
                          (pmanifests, err) \<Rightarrow>
                            if err \<noteq> EOF
                            then (Inl (ErrDecoding (header_Name header) err), logged1)
                            else validateArchive e ctx stackmanifest rest cleanEnd
                                   (manifests' @ pmanifests) logged1)))
      else validateArchive e ctx stackmanifest rest cleanEnd manifests' logged)"

text \<open>Read the manifests from a tar.gz archive.\<close>

definition decodeManifests ::
  "'s env \<Rightarrow> byte list \<Rightarrow> (string \<times> string) list \<Rightarrow> (error + StackAsset list) \<times> event list" where
  "decodeManifests e archive ctx =
     (case openArchive e archive of
        None \<Rightarrow> (Inl ErrManifestGzip, [])
      | Some (entries, cleanEnd) \<Rightarrow>
          (case readManifestYaml e entries cleanEnd \<lparr>Contents = []\<rparr> False [] of
             Inl err \<Rightarrow> (Inl err, [])
           | Inr (stackmanifest, foundManifest, headers) \<Rightarrow>
               if foundManifest \<noteq> True
               then (Inl ErrUnableToReadManifestYaml, [LogHeaderNames headers])
               else validateArchive e ctx stackmanifest entries cleanEnd []
                      [LogHeaderNames headers]))"

definition tarGzType :: string where
  "tarGzType = ''.tar.gz''"

definition yamlType :: string where
  "yamlType = ''.yaml''"

definition getPipelineFileType :: "'s env \<Rightarrow> PipelineStatus \<Rightarrow> error + string" where
  "getPipelineFileType e pipelineStatus =
     (case url_Parse e (ps_Url pipelineStatus) of
        Inl err \<Rightarrow> Inl (ErrExternal err)
      | Inr path \<Rightarrow>
          let fileName = (if statusUsable e (ps_GitRelease pipelineStatus)
                          then AssetName (ps_GitRelease pipelineStatus) else path)
          in if HasSuffix fileName ''.tar.gz'' \<or> HasSuffix fileName ''.tgz'' then Inr tarGzType
             else if HasSuffix fileName ''.yaml'' \<or> HasSuffix fileName ''.yml'' then Inr yamlType
             else Inr [])"

definition GetManifests ::
  "'s env \<Rightarrow> string \<Rightarrow> PipelineStatus \<Rightarrow> (string \<times> string) list \<Rightarrow> bool \<Rightarrow> 's state \<Rightarrow>
   (error + StackAsset list) \<times> 's state" where
  "GetManifests e namespace pipelineStatus ctx skipCertVerification st =
     (case DownloadToByte e namespace (ps_Url pipelineStatus) (ps_GitRelease pipelineStatus)
             skipCertVerification st of
        (Inl err, st1) \<Rightarrow> (Inl err, st1)
      | (Inr b, st1) \<Rightarrow>
          let b_sum = sha256_Sum256 e b in
          (case hex_DecodeString (ps_Digest pipelineStatus) of
             Inl err \<Rightarrow> (Inl (ErrExternal err), st1)
           | Inr decoded \<Rightarrow>
               let c_sum = copy32 decoded in
               (case getPipelineFileType e pipelineStatus of
                  Inl err \<Rightarrow> (Inl err, st1)
                | Inr fileType \<Rightarrow>
                    if fileType = tarGzType then
                      (if b_sum \<noteq> c_sum
                       then (Inl (ErrIndexChecksum c_sum b_sum (ps_Name pipelineStatus)), st1)
                       else (case decodeManifests e b ctx of
                               (r, logged) \<Rightarrow> (r, st1\<lparr>trace := trace st1 @ logged\<rparr>)))
                    else if fileType = yamlType then
                      (let st2 = (if b_sum \<noteq> c_sum
                                  then record_event
                                         (LogIndexChecksum c_sum b_sum (ps_Name pipelineStatus)) st1
                                  else st1)
                       in case processManifest e b ctx (ps_Name pipelineStatus)
                                 (hex_EncodeToString b_sum) of
                            (manifests', err) \<Rightarrow>
                              if err \<noteq> EOF then (Inl err, st2) else (Inr manifests', st2))
                    else (Inl (ErrFileType (ps_Name pipelineStatus)), st1))))"

section \<open>Deleting and creating the assets\<close>

definition AssetStatusActive :: string where
  "AssetStatusActive = ''active''"

definition AssetStatusFailed :: string where
  "AssetStatusFailed = ''failed''"

definition AssetStatusUnknown :: string where
  "AssetStatusUnknown = ''unknown''"

definition assetGVK :: "RepositoryAssetStatus \<Rightarrow> GroupVersionKind" where
  "assetGVK asset = (as_Group asset, as_Version asset, as_Kind asset)"

definition assetKey :: "RepositoryAssetStatus \<Rightarrow> ObjectKey" where
  "assetKey asset = \<lparr>key_Namespace = as_Namespace asset, key_Name = as_Name asset\<rparr>"

text \<open>Deletes an asset.  This can mean removing an object owner, or completely deleting it.\<close>

definition DeleteAsset ::
  "'s env \<Rightarrow> RepositoryAssetStatus \<Rightarrow> OwnerReference \<Rightarrow> 's state \<Rightarrow> error option \<times> 's state" where
  "DeleteAsset e asset assetOwner st =
     (if as_Status asset = AssetStatusUnknown \<or> as_Status asset = AssetStatusFailed then
        (None, record_event
                 (LogIgnoringDelete (as_Name asset) (as_Namespace asset) (as_Status asset)) st)
      else
        (case client_Get e (assetGVK asset) (assetKey asset) (world st) of
           (r, w) \<Rightarrow>
             let st1 = record_event (CallGet (assetGVK asset) (assetKey asset)) (st\<lparr>world := w\<rparr>)
             in case r of
                  Inl err \<Rightarrow>
                    if IsNotFound err = False
                    then (Some (ErrExternal err),
                          record_event (LogUnableToRetrieveAsset err (as_Name asset)
                                          (as_Namespace asset) (as_Status asset)) st1)
                    else (None, st1)
                | Inr u \<Rightarrow>
                    let ownerRefs = u_OwnerReferences u;
                        newOwnerRefs =
                          filter (\<lambda>ownerRef. UID ownerRef \<noteq> UID assetOwner) ownerRefs
                    in if length newOwnerRefs = 0 then
                         (case client_Delete e u (world st1) of
                            (r2, w2) \<Rightarrow>
                              let st2 = record_event (CallDelete u) (st1\<lparr>world := w2\<rparr>)
                              in case r2 of
                                   Some err \<Rightarrow>
                                     (Some (ErrExternal err),
                                      record_event (LogUnableToDeleteAsset err (as_Name asset)
                                                      (as_Namespace asset) (as_Status asset)) st2)
                                 | None \<Rightarrow> (None, st2))
                       else
                         (let u2 = u\<lparr>u_OwnerReferences := newOwnerRefs\<rparr>
                          in case client_Update e u2 (world st1) of
                               (r2, w2) \<Rightarrow>
                                 let st2 = record_event (CallUpdate u2) (st1\<lparr>world := w2\<rparr>)
                                 in case r2 of
                                      Some err \<Rightarrow>
                                        (Some (ErrExternal err),
                                         record_event (LogUnableToDeleteOwner err (as_Name asset)
                                                         (as_Namespace asset) (as_Status asset)) st2)
                                    | None \<Rightarrow> (None, st2))))"

text \<open>Some objects need to get created in a specific namespace.  Try and figure out what that is.\<close>

definition getNamespaceForObject :: "Unstructured \<Rightarrow> string \<Rightarrow> string" where
  "getNamespaceForObject u defaultNamespace =
     (let kind = u_Kind u
      in if (kind = ''TriggerBinding'' \<or> kind = ''TriggerTemplate'' \<or> kind = ''EventListener'')
            \<and> length (u_Namespace u) \<noteq> 0
         then u_Namespace u
         else defaultNamespace)"

text \<open>Old assets may not have a namespace set - correct that now.\<close>

definition correctNamespace :: "string \<Rightarrow> RepositoryAssetStatus \<Rightarrow> RepositoryAssetStatus" where
  "correctNamespace targetNamespace asset =
     (if length (as_Namespace asset) = 0 then asset\<lparr>as_Namespace := targetNamespace\<rparr> else asset)"

text \<open>Add the Digest to the rendering context.\<close>

definition setDigest :: "PipelineStatus \<Rightarrow> 's state \<Rightarrow> 's state" where
  "setDigest pipelineStatus st =
     st\<lparr>renderingContext :=
          AList.update ''Digest''
            (if length (ps_Digest pipelineStatus) \<ge> 8 then take 8 (ps_Digest pipelineStatus)
             else ''nodigest'')
            (renderingContext st)\<rparr>"

definition rejectedMessage :: string where
  "rejectedMessage =
     ''Manifest rejected: contains a Group not equal to tekton.dev or triggers.tekton.dev''"

definition notAvailableMessage :: string where
  "notAvailableMessage = ''Manifests are no longer available at specified URL''"

text \<open>
  The body of \<open>if asset.Name == manifest.Name\<close> (lines 249 to 288): only the two
  tekton groups are allowed; an allowed manifest is transformed and applied.
  \<open>mf.Slice\<close> hands its resources over as they are, so \<open>ManifestFrom\<close> (whose error
  the code drops) yields the manifest of the one resource.
\<close>

definition applyManifest ::
  "'s env \<Rightarrow> OwnerReference \<Rightarrow> StackAsset \<Rightarrow> RepositoryAssetStatus \<times> 's state \<Rightarrow>
   RepositoryAssetStatus \<times> 's state" where
  "applyManifest e assetOwner manifest acc =
     (case acc of (asset, st) \<Rightarrow>
        let resource = Yaml manifest in
        if u_Group resource \<noteq> ''tekton.dev'' \<and> u_Group resource \<noteq> ''triggers.tekton.dev''
        then (asset\<lparr>as_Status := AssetStatusFailed, as_StatusMessage := rejectedMessage\<rparr>, st)
        else
          (let st1 = record_event (LogResources [resource]) st
           in case mf_Transform e assetOwner (as_Namespace asset) resource of
                Inl err \<Rightarrow>
                  (asset\<lparr>as_Status := AssetStatusFailed\<rparr>\<lparr>as_Status := Error err\<rparr>,
                   record_event (LogErrorTransforming err (as_Name asset)) st1)
              | Inr m \<Rightarrow>
                  (case mf_Apply e m (world st1) of
                     (r, w) \<Rightarrow>
                       let st2 = record_event (CallApply m)
                                   (record_event (LogApplyingResources [m]) (st1\<lparr>world := w\<rparr>))
                       in case r of
                            Some err \<Rightarrow>
                              (asset\<lparr>as_Status := AssetStatusFailed,
                                     as_StatusMessage := Error err\<rparr>,
                               record_event (LogErrorInstalling err (as_Name asset)) st2)
                          | None \<Rightarrow>
                              (asset\<lparr>as_Status := AssetStatusActive, as_StatusMessage := []\<rparr>,
                               st2))))"

text \<open>Now find the correct manifest and create the object (the loop of line 247).\<close>

definition createFromManifests ::
  "'s env \<Rightarrow> OwnerReference \<Rightarrow> StackAsset list \<Rightarrow> RepositoryAssetStatus \<times> 's state \<Rightarrow>
   RepositoryAssetStatus \<times> 's state" where
  "createFromManifests e assetOwner manifests' acc =
     fold (\<lambda>manifest acc. if as_Name (fst acc) = sa_Name manifest
                           then applyManifest e assetOwner manifest acc else acc)
       manifests' acc"

text \<open>
  One round of the loop over \<open>value.ActiveAssets\<close> (lines 200 to 318).  The round
  reads and writes its own element of the slice, and \<open>value.manifests\<close>.
\<close>

definition ensureAsset ::
  "'s env \<Rightarrow> string \<Rightarrow> OwnerReference \<Rightarrow> bool \<Rightarrow> PipelineStatus \<Rightarrow> RepositoryAssetStatus \<Rightarrow>
   StackAsset list \<Rightarrow> 's state \<Rightarrow> RepositoryAssetStatus \<times> StackAsset list \<times> 's state" where
  "ensureAsset e targetNamespace assetOwner skipCertVerification pipelineStatus asset0
     manifests' st =
     (let asset = correctNamespace targetNamespace asset0
      in case client_Get e (assetGVK asset) (assetKey asset) (world st) of
           (r, w) \<Rightarrow>
             let st1 = record_event (CallGet (assetGVK asset) (assetKey asset)) (st\<lparr>world := w\<rparr>)
             in case r of
                  Inl err \<Rightarrow>
                    if IsNotFound err = False then
                      (asset\<lparr>as_Status := AssetStatusUnknown,
                             as_StatusMessage := ''Unable to check asset: '' @ Error err\<rparr>,
                       manifests',
                       record_event (LogUnableToCheckAsset err (as_Name asset)) st1)
                    else
                      (let loaded =
                             (if length manifests' = 0 then
                                (let st2 = setDigest pipelineStatus st1
                                 in case GetManifests e targetNamespace pipelineStatus
                                           (renderingContext st2) skipCertVerification st2 of
                                      (Inl err2, st3) \<Rightarrow>
                                        (asset\<lparr>as_Status := AssetStatusFailed,
                                               as_StatusMessage := notAvailableMessage\<rparr>,
                                         manifests',
                                         record_event
                                           (LogManifestsNotAvailable err2 (as_Name asset)) st3)
                                    | (Inr fetched, st3) \<Rightarrow> (asset, fetched, st3))
                              else (asset, manifests', st1))
                       in case loaded of (asset1, manifests1, st4) \<Rightarrow>
                            (case createFromManifests e assetOwner manifests1 (asset1, st4) of
                               (asset2, st5) \<Rightarrow> (asset2, manifests1, st5)))
                | Inr u \<Rightarrow>
                    let ownerRefs = u_OwnerReferences u;
                        foundOurselves =
                          list_ex (\<lambda>ownerRef. UID ownerRef = UID assetOwner) ownerRefs;
                        st2 =
                          (if foundOurselves = False then
                             (let u2 = u\<lparr>u_OwnerReferences := ownerRefs @ [assetOwner]\<rparr>
                              in case client_Update e u2 (world st1) of
                                   (r2, w2) \<Rightarrow>
                                     let st2 = record_event (CallUpdate u2) (st1\<lparr>world := w2\<rparr>)
                                     in case r2 of
                                          Some err \<Rightarrow>
                                            record_event
                                              (LogUnableToAddOwner err (as_Name asset)) st2
                                        | None \<Rightarrow> st2)
                           else st1)
                    in (asset\<lparr>as_Status := AssetStatusActive, as_StatusMessage := []\<rparr>,
                        manifests', st2))"

fun ensureAssets ::
  "'s env \<Rightarrow> string \<Rightarrow> OwnerReference \<Rightarrow> bool \<Rightarrow> PipelineStatus \<Rightarrow> RepositoryAssetStatus list \<Rightarrow>
   StackAsset list \<Rightarrow> 's state \<Rightarrow> RepositoryAssetStatus list \<times> StackAsset list \<times> 's state" where
  "ensureAssets e targetNamespace assetOwner skip pipelineStatus [] manifests' st =
     ([], manifests', st)"
| "ensureAssets e targetNamespace assetOwner skip pipelineStatus (asset # rest) manifests' st =
     (case ensureAsset e targetNamespace assetOwner skip pipelineStatus asset manifests' st of
        (asset1, manifests1, st1) \<Rightarrow>
          (case ensureAssets e targetNamespace assetOwner skip pipelineStatus rest manifests1 st1 of
             (rest1, manifests2, st2) \<Rightarrow> (asset1 # rest1, manifests2, st2)))"

text \<open>Create the asset status slice, but don't apply anything yet.\<close>

definition newAssetStatus :: "string \<Rightarrow> StackAsset \<Rightarrow> RepositoryAssetStatus" where
  "newAssetStatus targetNamespace asset =
     \<lparr>as_Name = sa_Name asset,
      as_Namespace = getNamespaceForObject (Yaml asset) targetNamespace,
      as_Group = sa_Group asset, as_Version = sa_Version asset, as_Kind = sa_Kind asset,
      as_Digest = sa_Sha256 asset, as_Status = AssetStatusUnknown,
      as_StatusMessage = ''Asset has not been applied yet.''\<rparr>"

definition withAssets :: "PipelineUseMapValue \<Rightarrow> RepositoryAssetStatus list \<Rightarrow> PipelineUseMapValue" where
  "withAssets value assets = value\<lparr>PipelineStatus := (PipelineStatus value)\<lparr>ActiveAssets := assets\<rparr>\<rparr>"

text \<open>The body of \<open>if value.useCount > 0\<close> (lines 158 to 318) for one pipeline.\<close>

definition ensurePipeline ::
  "'s env \<Rightarrow> string \<Rightarrow> OwnerReference \<Rightarrow> bool \<Rightarrow> PipelineUseMapValue \<Rightarrow> 's state \<Rightarrow>
   PipelineUseMapValue \<times> 's state" where
  "ensurePipeline e targetNamespace assetOwner skip value st =
     (let st0 = record_event (LogCreatingAssets (useCount value) value) st;
          run = (\<lambda>value1 st1.
                   case ensureAssets e targetNamespace assetOwner skip (PipelineStatus value1)
                          (ActiveAssets (PipelineStatus value1)) (manifests value1) st1 of
                     (assets, manifests2, st2) \<Rightarrow>
                       ((withAssets value1 assets)\<lparr>manifests := manifests2\<rparr>, st2))
      in if length (ActiveAssets (PipelineStatus value)) = 0 then
           (let st1 = setDigest (PipelineStatus value) st0
            in case GetManifests e targetNamespace (PipelineStatus value) (renderingContext st1)
                      skip st1 of
                 (Inl err, st2) \<Rightarrow>
                   (value\<lparr>ManifestError := Some err\<rparr>,
                    record_event (LogErrorRetrievingManifests err value) st2)
               | (Inr fetched, st2) \<Rightarrow>
                   run (withAssets (value\<lparr>manifests := fetched\<rparr>)
                          (map (newAssetStatus targetNamespace) fetched)) st2)
         else run value st0)"

text \<open>
  Delete any assets with a use count of 0 (lines 141 to 154); the value
  \<open>DeleteAsset\<close> returns is dropped.
\<close>

definition deleteAssets ::
  "'s env \<Rightarrow> string \<Rightarrow> OwnerReference \<Rightarrow> RepositoryAssetStatus list \<Rightarrow> 's state \<Rightarrow> 's state" where
  "deleteAssets e targetNamespace assetOwner assets st =
     fold (\<lambda>asset st. snd (DeleteAsset e (correctNamespace targetNamespace asset) assetOwner st))
       assets st"

definition deletePhase ::
  "'s env \<Rightarrow> string \<Rightarrow> OwnerReference \<Rightarrow> PipelineUseMap \<Rightarrow> 's state \<Rightarrow> 's state" where
  "deletePhase e targetNamespace assetOwner assetUseMap st =
     fold (\<lambda>(key, value) st.
             if useCount value \<le> 0
             then deleteAssets e targetNamespace assetOwner (ActiveAssets (PipelineStatus value))
                    (record_event (LogDeletingAssets (useCount value) value) st)
             else st)
       (orderDelete e assetUseMap) st"

text \<open>Create any assets with a positive use count (lines 156 to 320).\<close>

definition certVerificationOf :: "(PipelineUseMapKey \<rightharpoonup> bool) \<Rightarrow> PipelineUseMapKey \<Rightarrow> bool" where
  "certVerificationOf certVerification key =
     (case certVerification key of None \<Rightarrow> False | Some skip \<Rightarrow> skip)"

definition ensurePhase ::
  "'s env \<Rightarrow> string \<Rightarrow> OwnerReference \<Rightarrow> (PipelineUseMapKey \<rightharpoonup> bool) \<Rightarrow> PipelineUseMap \<Rightarrow>
   's state \<Rightarrow> PipelineUseMap \<times> 's state" where
  "ensurePhase e targetNamespace assetOwner certVerification assetUseMap st =
     fold (\<lambda>(key, value) (m, st).
             if useCount value > 0
             then (case ensurePipeline e targetNamespace assetOwner
                          (certVerificationOf certVerification key) value st of
                     (value1, st1) \<Rightarrow> (AList.update key value1 m, st1))
             else (m, st))
       (orderEnsure e assetUseMap) (assetUseMap, st)"

definition ActivatePipelines ::
  "'s env \<Rightarrow> ComponentSpec \<Rightarrow> ComponentStatus \<Rightarrow> string \<Rightarrow> OwnerReference \<Rightarrow> 's state \<Rightarrow>
   (error + PipelineUseMap) \<times> 's state" where
  "ActivatePipelines e spec status targetNamespace assetOwner st =
     (case updateUseCounts (statusUsable e) (specUsable e) (orderDecrement e) (orderIncrement e)
             spec status of
        Inl err \<Rightarrow> (Inl err, st)
      | Inr (assetUseMap, certVerification) \<Rightarrow>
          (case ensurePhase e targetNamespace assetOwner certVerification assetUseMap
                  (deletePhase e targetNamespace assetOwner assetUseMap st) of
             (m, st1) \<Rightarrow> (Inr m, st1)))"

section \<open>The claims' own terms\<close>

text \<open>
  The entries of the status and of the spec as the pairs of a pipeline key and a stack
  version they stand for, in the order of the two loops that read them.
\<close>

definition statusPairs :: "(GitReleaseInfo \<Rightarrow> bool) \<Rightarrow> ComponentStatus \<Rightarrow> pipelineVersion list" where
  "statusPairs isUsable status =
     concat (map (\<lambda>curStatus. map (\<lambda>pipeline.
         \<lparr>PipelineUseMapKey = statusKey isUsable pipeline, version = status_Version curStatus\<rparr>)
       (status_Pipelines curStatus)) status)"

definition specPairs :: "(GitReleaseSpec \<Rightarrow> bool) \<Rightarrow> ComponentSpec \<Rightarrow> pipelineVersion list" where
  "specPairs isUsable spec =
     concat (map (\<lambda>curSpec. map (\<lambda>pipeline.
         \<lparr>PipelineUseMapKey = specKey isUsable pipeline, version = spec_Version curSpec\<rparr>)
       (spec_Pipelines curSpec)) spec)"

text \<open>The use count a map holds for a key, if it holds the key.\<close>

definition useCountOf :: "PipelineUseMap \<Rightarrow> PipelineUseMapKey \<Rightarrow> int option" where
  "useCountOf m key = map_option useCount (map_of m key)"


text \<open>Adding a number of uses to a count that may not be there yet.\<close>

fun addCount :: "int option \<Rightarrow> nat \<Rightarrow> int option" where
  "addCount None n = (if n = 0 then None else Some (int n))"
| "addCount (Some c) n = Some (c + int n)"

text \<open>
  An order Go may take over a map lists the members of the map, each once.
\<close>

definition rangeOrders :: "'s env \<Rightarrow> bool" where
  "rangeOrders e =
     ((\<forall>xs. mset (orderDecrement e xs) = mset xs) \<and> (\<forall>xs. mset (orderIncrement e xs) = mset xs) \<and>
      (\<forall>m. mset (orderDelete e m) = mset m) \<and> (\<forall>m. mset (orderEnsure e m) = mset m))"


text \<open>The use map \<open>ActivatePipelines\<close> returned; none when it returned an error.\<close>

definition returnedUseMap :: "(error + PipelineUseMap) \<times> 's state \<Rightarrow> PipelineUseMap" where
  "returnedUseMap r = (case fst r of Inl err \<Rightarrow> [] | Inr assetUseMap \<Rightarrow> assetUseMap)"

text \<open>The calls to the cluster, among all that was recorded.\<close>

definition isClusterCall :: "event \<Rightarrow> bool" where
  "isClusterCall ev =
     (case ev of CallGet gvk key \<Rightarrow> True | CallUpdate u \<Rightarrow> True | CallDelete u \<Rightarrow> True
               | CallApply u \<Rightarrow> True | _ \<Rightarrow> False)"

definition clusterCalls :: "'s state \<Rightarrow> event list" where
  "clusterCalls st = filter isClusterCall (trace st)"

text \<open>The resources handed to \<open>Apply\<close>, and the calls to the transport.\<close>

definition isApplyCall :: "event \<Rightarrow> bool" where
  "isApplyCall ev = (case ev of CallApply u \<Rightarrow> True | _ \<Rightarrow> False)"

definition applyCalls :: "'s state \<Rightarrow> event list" where
  "applyCalls st = filter isApplyCall (trace st)"

definition isTransportCall :: "event \<Rightarrow> bool" where
  "isTransportCall ev =
     (case ev of CallGetStackDataUsingGit gitRelease skip namespace \<Rightarrow> True
               | CallGetFromCache url skip \<Rightarrow> True | _ \<Rightarrow> False)"

definition transportCalls :: "'s state \<Rightarrow> event list" where
  "transportCalls st = filter isTransportCall (trace st)"

text \<open>The notes the decoder logs.\<close>

definition isDecoderNote :: "event \<Rightarrow> bool" where
  "isDecoderNote ev =
     (case ev of LogHeaderNames headers \<Rightarrow> True | LogNoChecksum name \<Rightarrow> True | _ \<Rightarrow> False)"

text \<open>The allow-list of the specification.\<close>

definition allowedGroup :: "string \<Rightarrow> bool" where
  "allowedGroup g = (g = ''tekton.dev'' \<or> g = ''triggers.tekton.dev'')"

text \<open>
  The manifests of an asset's name with an allowed group, transformed: what the
  specification lets the code apply for the asset.
\<close>

definition allowedResources ::
  "'s env \<Rightarrow> OwnerReference \<Rightarrow> RepositoryAssetStatus \<Rightarrow> StackAsset list \<Rightarrow> Unstructured list" where
  "allowedResources e assetOwner asset decoded =
     concat (map (\<lambda>manifest.
        if as_Name asset = sa_Name manifest \<and> allowedGroup (u_Group (Yaml manifest))
        then (case mf_Transform e assetOwner (as_Namespace asset) (Yaml manifest) of
                Inl err \<Rightarrow> [] | Inr m \<Rightarrow> [m])
        else []) decoded)"

text \<open>
  The name, group, kind, status and status message of every asset a use map holds,
  pipeline by pipeline; and the manifest error of every pipeline.
\<close>

definition assetStatuses ::
  "PipelineUseMap \<Rightarrow> (string \<times> string \<times> string \<times> string \<times> string) list" where
  "assetStatuses assetUseMap =
     concat (map (\<lambda>(key, val).
        map (\<lambda>asset. (as_Name asset, as_Group asset, as_Kind asset, as_Status asset,
                       as_StatusMessage asset))
          (ActiveAssets (PipelineStatus val))) assetUseMap)"

definition manifestErrors :: "PipelineUseMap \<Rightarrow> error option list" where
  "manifestErrors assetUseMap = map (\<lambda>(key, val). ManifestError val) assetUseMap"

text \<open>
  Modelled from the spec: the status that the caller of \<open>ActivatePipelines\<close> (the
  stack controller's \<open>reconcileActiveVersions\<close>, which is not among the sources)
  persists after a pass.  The specification's persisted state has one entry for each
  stack version, with the version string and the list of pipeline statuses, each with
  its source, digest and list of asset statuses; the use map itself is not persisted.
\<close>

definition persistedStatus ::
  "(GitReleaseSpec \<Rightarrow> bool) \<Rightarrow> ComponentSpec \<Rightarrow> PipelineUseMap \<Rightarrow> ComponentStatus" where
  "persistedStatus isUsable spec assetUseMap =
     map (\<lambda>curSpec.
        \<lparr>status_Version = spec_Version curSpec,
         status_Pipelines =
           concat (map (\<lambda>pipeline.
              case map_of assetUseMap (specKey isUsable pipeline) of
                None \<Rightarrow> [] | Some val \<Rightarrow> [PipelineStatus val])
            (spec_Pipelines curSpec))\<rparr>) spec"

section \<open>A cluster and a server to run the code on\<close>

text \<open>
  The client of the package's unit tests (\<open>unitTestClient\<close> in
  \<open>stack_controller_test.go\<close>) keeps, for each object, its owner references; an object
  is there when it has an owner.  Its server (\<open>stackHandler\<close>) serves the files of a
  directory.
\<close>

record testWorld =
  objs :: "(ObjectKey \<times> OwnerReference list) list"
  files :: "(string \<times> byte list) list"

definition ownersOf :: "testWorld \<Rightarrow> ObjectKey \<Rightarrow> OwnerReference list" where
  "ownersOf w key = (case map_of (objs w) key of None \<Rightarrow> [] | Some owners \<Rightarrow> owners)"

definition NewNotFound :: "string \<Rightarrow> xerror" where
  "NewNotFound name = XError True (name @ '' not found'')"

definition unstructuredKey :: "Unstructured \<Rightarrow> ObjectKey" where
  "unstructuredKey u = \<lparr>key_Namespace = u_Namespace u, key_Name = u_Name u\<rparr>"

definition testGet :: "GroupVersionKind \<Rightarrow> ObjectKey \<Rightarrow> testWorld \<Rightarrow> (xerror + Unstructured) \<times> testWorld" where
  "testGet gvk key w =
     (let owners = ownersOf w key
      in if length owners = 0 then (Inl (NewNotFound (key_Name key)), w)
         else (case gvk of (g, v, k) \<Rightarrow>
                 (Inr \<lparr>u_Group = g, u_Version = v, u_Kind = k, u_Name = key_Name key,
                       u_Namespace = key_Namespace key, u_OwnerReferences = owners,
                       u_Content = []\<rparr>, w)))"

definition testCreate :: "Unstructured \<Rightarrow> testWorld \<Rightarrow> xerror option \<times> testWorld" where
  "testCreate u w =
     (if length (ownersOf w (unstructuredKey u)) > 0
      then (Some (XError False (u_Name u @ '' already exists'')), w)
      else if u_Kind u = ''BadTask''
      then (Some (XError False ''Receive create for invalid kind: BadTask''), w)
      else (None, w\<lparr>objs := AList.update (unstructuredKey u) (u_OwnerReferences u) (objs w)\<rparr>))"

definition testUpdate :: "Unstructured \<Rightarrow> testWorld \<Rightarrow> xerror option \<times> testWorld" where
  "testUpdate u w =
     (if length (ownersOf w (unstructuredKey u)) = 0
      then (Some (NewNotFound (u_Name u)), w)
      else (None, w\<lparr>objs := AList.update (unstructuredKey u) (u_OwnerReferences u) (objs w)\<rparr>))"

definition testDelete :: "Unstructured \<Rightarrow> testWorld \<Rightarrow> xerror option \<times> testWorld" where
  "testDelete u w =
     (if length (ownersOf w (unstructuredKey u)) = 0
      then (Some (NewNotFound (u_Name u)), w)
      else (None, w\<lparr>objs := AList.delete (unstructuredKey u) (objs w)\<rparr>))"

text \<open>
  Manifestival's \<open>Apply\<close> creates the resource that is not there and updates the one
  that is; the two transforms of \<open>ActivatePipelines\<close> set the owner and the namespace.
\<close>

definition testApply :: "Unstructured \<Rightarrow> testWorld \<Rightarrow> xerror option \<times> testWorld" where
  "testApply u w =
     (if length (ownersOf w (unstructuredKey u)) = 0 then testCreate u w else testUpdate u w)"

definition testTransform :: "OwnerReference \<Rightarrow> string \<Rightarrow> Unstructured \<Rightarrow> xerror + Unstructured" where
  "testTransform assetOwner namespace u =
     Inr (u\<lparr>u_OwnerReferences := [assetOwner], u_Namespace := namespace\<rparr>)"

definition testGetFromCache :: "string \<Rightarrow> bool \<Rightarrow> testWorld \<Rightarrow> (xerror + byte list) \<times> testWorld" where
  "testGetFromCache url skip w =
     (case map_of (files w) url of
        None \<Rightarrow> (Inl (XError False (''Could not retrieve the resource: '' @ url)), w)
      | Some d \<Rightarrow> (Inr d, w))"

text \<open>
  The files of the examples.  Bytes stand for the files: the archive \<open>[1]\<close> unpacks to a
  \<open>manifest.yaml\<close> (bytes \<open>[2]\<close>) that indexes \<open>pipeline.yaml\<close> (bytes \<open>[3]\<close>, a tekton
  Pipeline) and \<open>task.yaml\<close> (bytes \<open>[4]\<close>, a tekton Task), both with their checksums;
  the archive \<open>[5]\<close> holds the same files under a \<open>manifest.yaml\<close> (bytes \<open>[6]\<close>) whose
  checksum for \<open>task.yaml\<close> is another one.  The checksum of the examples is the first
  32 bytes of the file, padded with zeros.
\<close>

definition exampleSum256 :: "byte list \<Rightarrow> byte list" where
  "exampleSum256 b = copy32 b"

definition exampleEntry :: "string \<Rightarrow> byte list \<Rightarrow> tarEntry" where
  "exampleEntry name b = \<lparr>header_Name = name, header_Size = length b, tarReader = [(b, ReadEOF)]\<rparr>"

definition exampleOpenArchive :: "byte list \<Rightarrow> (tarEntry list \<times> bool) option" where
  "exampleOpenArchive archive =
     (if archive = [1] then
        Some ([exampleEntry ''./manifest.yaml'' [2], exampleEntry ''./pipeline.yaml'' [3],
               exampleEntry ''./task.yaml'' [4]], True)
      else if archive = [5] then
        Some ([exampleEntry ''./manifest.yaml'' [6], exampleEntry ''./pipeline.yaml'' [3],
               exampleEntry ''./task.yaml'' [4]], True)
      else None)"

definition exampleUnmarshal :: "byte list \<Rightarrow> StackManifest \<Rightarrow> xerror + StackManifest" where
  "exampleUnmarshal b stackmanifest =
     (if b = [2] then
        Inr \<lparr>Contents = [\<lparr>File = ''pipeline.yaml'', sc_Sha256 = ''03''\<rparr>,
                          \<lparr>File = ''task.yaml'', sc_Sha256 = ''04''\<rparr>]\<rparr>
      else if b = [6] then
        Inr \<lparr>Contents = [\<lparr>File = ''pipeline.yaml'', sc_Sha256 = ''03''\<rparr>,
                          \<lparr>File = ''task.yaml'', sc_Sha256 = ''ff''\<rparr>]\<rparr>
      else Inl (XError False ''yaml: unmarshal errors''))"

definition exampleObject :: "string \<Rightarrow> string \<Rightarrow> string \<Rightarrow> Unstructured" where
  "exampleObject apiGroup apiKind name =
     \<lparr>u_Group = apiGroup, u_Version = ''v1alpha1'', u_Kind = apiKind, u_Name = name,
      u_Namespace = [], u_OwnerReferences = [], u_Content = []\<rparr>"

definition exampleDecode :: "byte list \<Rightarrow> Unstructured list \<times> xerror option" where
  "exampleDecode b =
     (if b = [3] then ([exampleObject ''tekton.dev'' ''Pipeline'' ''build-pipeline''], None)
      else if b = [4] then ([exampleObject ''tekton.dev'' ''Task'' ''build-task''], None)
      else ([], Some (XError False ''yaml: did not find expected node content'')))"

definition exampleUsable :: "'a GitReleaseInfo_scheme \<Rightarrow> bool" where
  "exampleUsable gitRelease =
     (length (Hostname gitRelease) \<noteq> 0 \<and> length (Organization gitRelease) \<noteq> 0 \<and>
      length (Project gitRelease) \<noteq> 0 \<and> length (Release gitRelease) \<noteq> 0 \<and>
      length (AssetName gitRelease) \<noteq> 0)"

definition testEnv :: "testWorld env" where
  "testEnv =
     \<lparr>statusUsable = exampleUsable, specUsable = exampleUsable,
      orderDecrement = (\<lambda>xs. xs), orderIncrement = (\<lambda>xs. xs),
      orderDelete = (\<lambda>m. m), orderEnsure = (\<lambda>m. m),
      sha256_Sum256 = exampleSum256, url_Parse = Inr,
      openArchive = exampleOpenArchive, yml_Unmarshal = exampleUnmarshal,
      Render = (\<lambda>b ctx. Inr b), yaml_Decode = exampleDecode,
      GetStackDataUsingGit = (\<lambda>gitRelease skip namespace w.
                                 (Inl (XError False ''no git server''), w)),
      GetFromCache = testGetFromCache,
      client_Get = testGet, client_Update = testUpdate, client_Delete = testDelete,
      mf_Transform = testTransform, mf_Apply = testApply\<rparr>"

definition myOwner :: OwnerReference where
  "myOwner = \<lparr>or_APIVersion = ''kabanero.io/v1alpha2'', or_Kind = ''Stack'',
              or_Name = ''java-microprofile'', UID = ''MYUID''\<rparr>"

definition otherOwner :: OwnerReference where
  "otherOwner = \<lparr>or_APIVersion = ''kabanero.io/v1alpha2'', or_Kind = ''Stack'',
                 or_Name = ''nodejs'', UID = ''OTHERUID''\<rparr>"

definition noGitRelease :: GitReleaseSpec where
  "noGitRelease = \<lparr>Hostname = [], Organization = [], Project = [], Release = [],
                   AssetName = [], SkipCertVerification = False\<rparr>"

definition examplePipelineSpec :: "string \<Rightarrow> string \<Rightarrow> PipelineSpec" where
  "examplePipelineSpec url digest =
     \<lparr>spec_Id = ''default'', Sha256 = digest,
      Https = \<lparr>https_Url = url, https_SkipCertVerification = False\<rparr>,
      spec_GitRelease = noGitRelease\<rparr>"

definition examplePipelineStatus :: "string \<Rightarrow> string \<Rightarrow> RepositoryAssetStatus list \<Rightarrow> PipelineStatus" where
  "examplePipelineStatus url digest assets =
     \<lparr>ps_Name = ''default'', ps_Url = url, ps_GitRelease = emptyGitReleaseInfo,
      ps_Digest = digest, ActiveAssets = assets\<rparr>"

definition exampleKey :: "string \<Rightarrow> string \<Rightarrow> PipelineUseMapKey" where
  "exampleKey url digest = \<lparr>Url = url, GitRelease = emptyGitReleaseInfo, Digest = digest\<rparr>"

definition exampleAsset :: "string \<Rightarrow> string \<Rightarrow> string \<Rightarrow> string \<Rightarrow> RepositoryAssetStatus" where
  "exampleAsset apiGroup apiKind name status =
     \<lparr>as_Name = name, as_Namespace = ''kabanero'', as_Group = apiGroup, as_Version = ''v1alpha1'',
      as_Kind = apiKind, as_Digest = [], as_Status = status, as_StatusMessage = []\<rparr>"

definition emptyState :: "testWorld \<Rightarrow> testWorld state" where
  "emptyState w = \<lparr>world = w, trace = [], renderingContext = []\<rparr>"

text \<open>An upgrade: the status holds version 0.2.4 of a pipeline, the spec asks for 0.2.5.\<close>

definition upgradeStatus :: ComponentStatus where
  "upgradeStatus =
     [\<lparr>status_Version = ''0.2.4'',
       status_Pipelines = [examplePipelineStatus ''/basic.pipeline.tar.gz'' ''01'' []]\<rparr>]"

definition upgradeSpec :: ComponentSpec where
  "upgradeSpec =
     [\<lparr>spec_Version = ''0.2.5'',
       spec_Pipelines = [examplePipelineSpec ''/basic.pipeline.tar.gz'' ''01'']\<rparr>]"



text \<open>A cluster where two stacks own the build task, and one where only this stack does.\<close>

definition taskKey :: ObjectKey where
  "taskKey = \<lparr>key_Namespace = ''kabanero'', key_Name = ''build-task''\<rparr>"

definition sharedWorld :: testWorld where
  "sharedWorld = \<lparr>objs = [(taskKey, [myOwner, otherOwner])], files = []\<rparr>"

definition ownWorld :: testWorld where
  "ownWorld = \<lparr>objs = [(taskKey, [myOwner])], files = []\<rparr>"

definition otherWorld :: testWorld where
  "otherWorld = \<lparr>objs = [(taskKey, [otherOwner])], files = []\<rparr>"

definition taskAsset :: RepositoryAssetStatus where
  "taskAsset = exampleAsset ''tekton.dev'' ''Task'' ''build-task'' ''active''"

definition taskObject :: "OwnerReference list \<Rightarrow> Unstructured" where
  "taskObject owners =
     \<lparr>u_Group = ''tekton.dev'', u_Version = ''v1alpha1'', u_Kind = ''Task'',
      u_Name = ''build-task'', u_Namespace = ''kabanero'', u_OwnerReferences = owners,
      u_Content = []\<rparr>"

text \<open>
  More files for the server.  The single manifests \<open>build.yaml\<close> (bytes \<open>[7]\<close>) and
  \<open>app.yaml\<close> (bytes \<open>[8]\<close>) each hold two documents of one name, a tekton Task and an
  apps Deployment, in the two orders.  The archives \<open>[9]\<close> and \<open>[11]\<close> hold the files
  of the first archive under a \<open>manifest.yaml\<close> that lists checksums of 64 hexadecimal
  digits: the one of \<open>[9]\<close> (bytes \<open>[10]\<close>) has two more digits after the checksum of
  \<open>task.yaml\<close>, the one of \<open>[11]\<close> (bytes \<open>[12]\<close>) has another checksum for it.
\<close>

definition paddedDigest :: "string \<Rightarrow> string" where
  "paddedDigest firstByte = firstByte @ replicate 62 (CHR ''0'')"

definition scenarioOpenArchive :: "byte list \<Rightarrow> (tarEntry list \<times> bool) option" where
  "scenarioOpenArchive archive =
     (if archive = [9] then
        Some ([exampleEntry ''./manifest.yaml'' [10], exampleEntry ''./pipeline.yaml'' [3],
               exampleEntry ''./task.yaml'' [4]], True)
      else if archive = [11] then
        Some ([exampleEntry ''./manifest.yaml'' [12], exampleEntry ''./pipeline.yaml'' [3],
               exampleEntry ''./task.yaml'' [4]], True)
      else exampleOpenArchive archive)"

definition scenarioUnmarshal :: "byte list \<Rightarrow> StackManifest \<Rightarrow> xerror + StackManifest" where
  "scenarioUnmarshal b stackmanifest =
     (if b = [10] then
        Inr \<lparr>Contents = [\<lparr>File = ''pipeline.yaml'', sc_Sha256 = paddedDigest ''03''\<rparr>,
                          \<lparr>File = ''task.yaml'', sc_Sha256 = paddedDigest ''04'' @ ''00''\<rparr>]\<rparr>
      else if b = [12] then
        Inr \<lparr>Contents = [\<lparr>File = ''pipeline.yaml'', sc_Sha256 = paddedDigest ''03''\<rparr>,
                          \<lparr>File = ''task.yaml'', sc_Sha256 = paddedDigest ''ff''\<rparr>]\<rparr>
      else exampleUnmarshal b stackmanifest)"

definition scenarioDecode :: "byte list \<Rightarrow> Unstructured list \<times> xerror option" where
  "scenarioDecode b =
     (if b = [7] then
        ([exampleObject ''tekton.dev'' ''Task'' ''build'',
          exampleObject ''apps'' ''Deployment'' ''build''], None)
      else if b = [8] then
        ([exampleObject ''apps'' ''Deployment'' ''build'',
          exampleObject ''tekton.dev'' ''Task'' ''build''], None)
      else exampleDecode b)"

definition scenarioEnv :: "testWorld env" where
  "scenarioEnv =
     testEnv\<lparr>openArchive := scenarioOpenArchive, yml_Unmarshal := scenarioUnmarshal,
             yaml_Decode := scenarioDecode\<rparr>"

definition scenarioWorld :: testWorld where
  "scenarioWorld =
     \<lparr>objs = [],
      files = [(''/basic.pipeline.tar.gz'', [1]), (''/bad.pipeline.tar.gz'', [11]),
               (''/build.yaml'', [7]), (''/app.yaml'', [8])]\<rparr>"

definition oneVersionSpec :: "string \<Rightarrow> string \<Rightarrow> ComponentSpec" where
  "oneVersionSpec url digest =
     [\<lparr>spec_Version = ''0.2.5'', spec_Pipelines = [examplePipelineSpec url digest]\<rparr>]"

text \<open>A first pass over \<open>build.yaml\<close> on the empty cluster, and a second pass over what it left.\<close>

definition buildFirstPass :: "(error + PipelineUseMap) \<times> testWorld state" where
  "buildFirstPass =
     ActivatePipelines scenarioEnv (oneVersionSpec ''/build.yaml'' (paddedDigest ''07'')) []
       ''kabanero'' myOwner (emptyState scenarioWorld)"

definition buildSecondPass :: "(error + PipelineUseMap) \<times> testWorld state" where
  "buildSecondPass =
     ActivatePipelines scenarioEnv (oneVersionSpec ''/build.yaml'' (paddedDigest ''07''))
       (persistedStatus (specUsable scenarioEnv)
          (oneVersionSpec ''/build.yaml'' (paddedDigest ''07'')) (returnedUseMap buildFirstPass))
       ''kabanero'' myOwner (snd buildFirstPass)"

text \<open>A manifestival whose transform fails on a Task.\<close>

definition failingTransformEnv :: "testWorld env" where
  "failingTransformEnv =
     testEnv\<lparr>mf_Transform := (\<lambda>assetOwner namespace u.
                if u_Kind u = ''Task'' then Inl (XError False ''unable to convert'')
                else testTransform assetOwner namespace u)\<rparr>"

text \<open>
  A status that lists one pipeline twice under one version, with the build task as its
  asset; and a status that tracks both assets of a pipeline whose URL serves nothing.
\<close>

definition listedTwiceStatus :: ComponentStatus where
  "listedTwiceStatus =
     [\<lparr>status_Version = ''0.2.5'',
       status_Pipelines = [examplePipelineStatus ''/basic.pipeline.tar.gz'' ''01'' [taskAsset],
                           examplePipelineStatus ''/basic.pipeline.tar.gz'' ''01'' [taskAsset]]\<rparr>]"

definition pipelineAsset :: RepositoryAssetStatus where
  "pipelineAsset = exampleAsset ''tekton.dev'' ''Pipeline'' ''build-pipeline'' ''active''"

definition staleStatus :: ComponentStatus where
  "staleStatus =
     [\<lparr>status_Version = ''0.2.5'',
       status_Pipelines = [examplePipelineStatus ''/gone.pipeline.tar.gz'' (paddedDigest ''01'')
                             [pipelineAsset, taskAsset]]\<rparr>]"

section \<open>Lemmas on the use counts\<close>

lemma addCount_add: "addCount (addCount x a) b = addCount x (a + b)"
  by (cases x) auto

lemma useCountOf_seedPipeline:
  "useCountOf (seedPipeline isU p m) k = addCount (useCountOf m k) (if statusKey isU p = k then 1 else 0)"
  by (auto simp: useCountOf_def seedPipeline_def Let_def update_conv' split: option.splits)

lemma useCountOf_seed_fold:
  "useCountOf (fold (seedPipeline isU) ps m) k
   = addCount (useCountOf m k) (length (filter (\<lambda>p. statusKey isU p = k) ps))"
proof (induction ps arbitrary: m)
  case Nil
  show ?case by (cases "useCountOf m k") auto
next
  case (Cons p ps)
  show ?case by (simp add: Cons.IH useCountOf_seedPipeline addCount_add)
qed

lemma useCountOf_seed_versions:
  "useCountOf (fold (\<lambda>curStatus. fold (seedPipeline isU) (status_Pipelines curStatus)) status m) k
   = addCount (useCountOf m k) (length (filter (\<lambda>cur. PipelineUseMapKey cur = k) (statusPairs isU status)))"
proof (induction status arbitrary: m)
  case Nil
  show ?case by (cases "useCountOf m k") (auto simp: statusPairs_def)
next
  case (Cons v vs)
  have "statusPairs isU (v # vs) = map (\<lambda>pipeline.
         \<lparr>PipelineUseMapKey = statusKey isU pipeline, version = status_Version v\<rparr>) (status_Pipelines v) @ statusPairs isU vs"
    by (simp add: statusPairs_def)
  then show ?case
    by (simp add: Cons.IH useCountOf_seed_fold addCount_add filter_map comp_def)
qed

lemma useCountOf_seedUseMap:
  "useCountOf (seedUseMap isU status) k
   = addCount None (length (filter (\<lambda>cur. PipelineUseMapKey cur = k) (statusPairs isU status)))"
  using useCountOf_seed_versions[of isU status "[]" k] by (simp add: seedUseMap_def useCountOf_def)

lemma set_setAdd: "set (setAdd x xs) = insert x (set xs)"
  by (auto simp: setAdd_def)

lemma distinct_setAdd: "distinct xs \<Longrightarrow> distinct (setAdd x xs)"
  by (auto simp: setAdd_def)

lemma statusVersions_fold_inner:
  "set (fold (\<lambda>pipeline acc. setAdd (mk pipeline) acc) ps acc) = set acc \<union> mk ` set ps
   \<and> (distinct acc \<longrightarrow> distinct (fold (\<lambda>pipeline acc. setAdd (mk pipeline) acc) ps acc))"
  by (induction ps arbitrary: acc) (auto simp: set_setAdd distinct_setAdd)

lemma statusVersions_fold:
  "set (fold (\<lambda>curStatus. fold (\<lambda>pipeline acc.
             setAdd \<lparr>PipelineUseMapKey = statusKey isU pipeline,
                     version = status_Version curStatus\<rparr> acc)
           (status_Pipelines curStatus)) status acc) = set acc \<union> set (statusPairs isU status)
   \<and> (distinct acc \<longrightarrow> distinct (fold (\<lambda>curStatus. fold (\<lambda>pipeline acc.
             setAdd \<lparr>PipelineUseMapKey = statusKey isU pipeline,
                     version = status_Version curStatus\<rparr> acc)
           (status_Pipelines curStatus)) status acc))"
proof (induction status arbitrary: acc)
  case Nil
  show ?case by (simp add: statusPairs_def)
next
  case (Cons v vs)
  have sp: "statusPairs isU (v # vs) = map (\<lambda>pipeline.
         \<lparr>PipelineUseMapKey = statusKey isU pipeline, version = status_Version v\<rparr>) (status_Pipelines v) @ statusPairs isU vs"
    by (simp add: statusPairs_def)
  show ?case
    using statusVersions_fold_inner[of "\<lambda>pipeline. \<lparr>PipelineUseMapKey = statusKey isU pipeline, version = status_Version v\<rparr>" "status_Pipelines v" acc]
    by (auto simp: Cons.IH sp)
qed

lemma set_statusVersions: "set (statusVersions isU status) = set (statusPairs isU status)"
  and distinct_statusVersions: "distinct (statusVersions isU status)"
  using statusVersions_fold[of isU status "[]"] by (simp_all add: statusVersions_def)

lemma specPipeline_step:
  "specPipeline isS ver p (d, i, c) =
     (let cur = \<lparr>PipelineUseMapKey = specKey isS p, version = ver\<rparr>
      in (if cur \<in> set d then removeAll cur d else d,
          if cur \<in> set d then i else setAdd cur i,
          c(specKey isS p \<mapsto> (if isS (spec_GitRelease p) then SkipCertVerification (spec_GitRelease p)
                    else https_SkipCertVerification (Https p)))))"
  by (simp add: specPipeline_def Let_def)


lemma specPipeline_fold:
  "(case fold (specPipeline isS ver) ps (d, i, c) of (d', i', c') \<Rightarrow> (d', i')) =
   fold (\<lambda>cur (d, i). if cur \<in> set d then (removeAll cur d, i) else (d, setAdd cur i))
     (map (\<lambda>p. \<lparr>PipelineUseMapKey = specKey isS p, version = ver\<rparr>) ps) (d, i)"
  by (induction ps arbitrary: d i c) (simp_all add: specPipeline_step Let_def)

lemma specVersions_cancel:
  "(case specVersions isS spec (d, i, c) of (d', i', c') \<Rightarrow> (d', i')) =
   fold (\<lambda>cur (d, i). if cur \<in> set d then (removeAll cur d, i) else (d, setAdd cur i))
     (specPairs isS spec) (d, i)"
proof (induction spec arbitrary: d i c)
  case Nil
  show ?case by (simp add: specVersions_def specPairs_def)
next
  case (Cons v vs)
  let ?mk = "\<lambda>p. \<lparr>PipelineUseMapKey = specKey isS p, version = spec_Version v\<rparr>"
  have sp: "specPairs isS (v # vs) = map ?mk (spec_Pipelines v) @ specPairs isS vs"
    by (simp add: specPairs_def)
  obtain d1 i1 c1 where inner: "fold (specPipeline isS (spec_Version v)) (spec_Pipelines v) (d, i, c) = (d1, i1, c1)"
    by (metis prod_cases3)
  from specPipeline_fold[of isS "spec_Version v" "spec_Pipelines v" d i c] inner
  have f1: "fold (\<lambda>cur (d, i). if cur \<in> set d then (removeAll cur d, i) else (d, setAdd cur i))
     (map ?mk (spec_Pipelines v)) (d, i) = (d1, i1)" by simp
  have "specVersions isS (v # vs) (d, i, c) = specVersions isS vs (d1, i1, c1)"
    using inner by (simp add: specVersions_def)
  then show ?case using Cons.IH[of d1 i1 c1] by (simp add: sp f1)
qed


lemma useCountOf_decrementLoop:
  "\<forall>cur \<in> set ds. useCountOf m (PipelineUseMapKey cur) \<noteq> None \<Longrightarrow>
   \<exists>m'. decrementLoop ds m = Inr m' \<and>
     (\<forall>k. useCountOf m' k =
        map_option (\<lambda>c. c - int (length (filter (\<lambda>cur. PipelineUseMapKey cur = k) ds))) (useCountOf m k))"
proof (induction ds arbitrary: m)
  case Nil
  show ?case by (simp add: option.map_ident)
next
  case (Cons cur ds)
  from Cons.prems obtain v where v: "map_of m (PipelineUseMapKey cur) = Some v"
    by (auto simp: useCountOf_def)
  let ?m1 = "AList.update (PipelineUseMapKey cur) (v\<lparr>useCount := useCount v - 1\<rparr>) m"
  have uc1: "useCountOf ?m1 k = (if k = PipelineUseMapKey cur then Some (useCount v - 1) else useCountOf m k)" for k
    by (simp add: useCountOf_def update_conv')
  from Cons.prems have "\<forall>c \<in> set ds. useCountOf ?m1 (PipelineUseMapKey c) \<noteq> None"
    by (simp add: uc1)
  from Cons.IH[OF this] obtain m' where m': "decrementLoop ds ?m1 = Inr m'"
    and cnt: "\<forall>k. useCountOf m' k =
        map_option (\<lambda>c. c - int (length (filter (\<lambda>cur. PipelineUseMapKey cur = k) ds))) (useCountOf ?m1 k)"
    by blast
  have "decrementLoop (cur # ds) m = Inr m'" using v m' by simp
  moreover have "useCountOf m' k =
        map_option (\<lambda>c. c - int (length (filter (\<lambda>c. PipelineUseMapKey c = k) (cur # ds)))) (useCountOf m k)" for k
  proof (cases "k = PipelineUseMapKey cur")
    case True
    from v have "useCountOf m k = Some (useCount v)" by (simp add: useCountOf_def True)
    with cnt[rule_format, of k] show ?thesis by (simp add: uc1 True)
  next
    case False
    with cnt[rule_format, of k] show ?thesis by (simp add: uc1)
  qed
  ultimately show ?case by blast
qed





lemma cancel_fold_subset:
  "fold (\<lambda>cur (d, i). if cur \<in> set d then (removeAll cur d, i) else (d, setAdd cur i)) cs (d, i) = (d', i')
   \<Longrightarrow> set d' \<subseteq> set d"
proof (induction cs arbitrary: d i)
  case Nil
  then show ?case by simp
next
  case (Cons c cs)
  show ?case
  proof (cases "c \<in> set d")
    case True
    with Cons.prems have "fold (\<lambda>cur (d, i). if cur \<in> set d then (removeAll cur d, i) else (d, setAdd cur i)) cs (removeAll c d, i) = (d', i')"
      by simp
    from Cons.IH[OF this] show ?thesis by auto
  next
    case False
    with Cons.prems have "fold (\<lambda>cur (d, i). if cur \<in> set d then (removeAll cur d, i) else (d, setAdd cur i)) cs (d, setAdd c i) = (d', i')"
      by simp
    from Cons.IH[OF this] show ?thesis .
  qed
qed

lemma seeded_present:
  "cur \<in> set (statusPairs isU status) \<Longrightarrow> useCountOf (seedUseMap isU status) (PipelineUseMapKey cur) \<noteq> None"
proof -
  assume "cur \<in> set (statusPairs isU status)"
  then have "filter (\<lambda>c. PipelineUseMapKey c = PipelineUseMapKey cur) (statusPairs isU status) \<noteq> []"
    by (auto simp: filter_empty_conv)
  then show ?thesis by (simp add: useCountOf_seedUseMap)
qed

lemma updateUseCounts_total:
  assumes od: "\<forall>xs. set (od xs) \<subseteq> set xs"
  shows "\<exists>r. updateUseCounts isU isS od oi spec status = Inr r"
proof -
  obtain d i c where sv: "specVersions isS spec (statusVersions isU status, [], Map.empty) = (d, i, c)"
    by (metis prod_cases3)
  from specVersions_cancel[of isS spec "statusVersions isU status" "[]" Map.empty] sv
  have "fold (\<lambda>cur (d, i). if cur \<in> set d then (removeAll cur d, i) else (d, setAdd cur i))
     (specPairs isS spec) (statusVersions isU status, []) = (d, i)" by simp
  from cancel_fold_subset[OF this] have "set d \<subseteq> set (statusPairs isU status)"
    by (simp add: set_statusVersions)
  with od have "\<forall>cur \<in> set (od d). cur \<in> set (statusPairs isU status)"
    by blast
  then have "\<forall>cur \<in> set (od d). useCountOf (seedUseMap isU status) (PipelineUseMapKey cur) \<noteq> None"
    using seeded_present by blast
  from useCountOf_decrementLoop[OF this] obtain m' where "decrementLoop (od d) (seedUseMap isU status) = Inr m'"
    by blast
  then show ?thesis using sv by (simp add: updateUseCounts_def Let_def)
qed


section \<open>Lemmas on the record of events\<close>

lemma trace_record_event [simp]: "trace (record_event ev st) = trace st @ [ev]"
  and world_record_event [simp]: "world (record_event ev st) = world st"
  and renderingContext_record_event [simp]: "renderingContext (record_event ev st) = renderingContext st"
  by (simp_all add: record_event_def)

lemma trace_setDigest [simp]: "trace (setDigest ps st) = trace st"
  and world_setDigest [simp]: "world (setDigest ps st) = world st"
  by (simp_all add: setDigest_def)



lemma DeleteAsset_trace:
  "DeleteAsset e asset owner st = (r, st') \<Longrightarrow> prefix (trace st) (trace st')"
  unfolding DeleteAsset_def
  by (auto simp: Let_def split: if_splits prod.splits sum.splits option.splits)




lemma rangeOrders_testEnv: "rangeOrders testEnv"
  by (simp add: rangeOrders_def testEnv_def)


section \<open>The rounds of the asset loop\<close>










section \<open>The two phases\<close>


lemma deleteAssets_trace:
  "prefix (trace st) (trace (deleteAssets e ns owner assets st))"
proof (induction assets arbitrary: st)
  case Nil
  show ?case by (simp add: deleteAssets_def)
next
  case (Cons a assets)
  obtain r st1 where d: "DeleteAsset e (correctNamespace ns a) owner st = (r, st1)"
    by (metis surj_pair)
  have "deleteAssets e ns owner (a # assets) st = deleteAssets e ns owner assets st1"
    using d by (simp add: deleteAssets_def)
  with DeleteAsset_trace[OF d] Cons.IH[of st1] show ?case by auto
qed


lemma fold_delete_trace:
  "prefix (trace st) (trace (fold (\<lambda>(key, value) st.
             if useCount value \<le> 0
             then deleteAssets e ns owner (ActiveAssets (PipelineStatus value))
                    (record_event (LogDeletingAssets (useCount value) value) st)
             else st) xs st))"
proof (induction xs arbitrary: st)
  case Nil
  show ?case by simp
next
  case (Cons x xs)
  obtain k v where x: "x = (k, v)" by (cases x)
  let ?st1 = "if useCount v \<le> 0
             then deleteAssets e ns owner (ActiveAssets (PipelineStatus v))
                    (record_event (LogDeletingAssets (useCount v) v) st)
             else st"
  have "prefix (trace st) (trace ?st1)"
    using deleteAssets_trace[of "record_event (LogDeletingAssets (useCount v) v) st" e ns owner "ActiveAssets (PipelineStatus v)"]
    by (auto elim: prefixE)
  with Cons.IH[of ?st1] show ?case unfolding x by (auto simp del: fold_simps simp add: fold_Cons)
qed


lemma deletePhase_trace: "prefix (trace st) (trace (deletePhase e ns owner m st))"
  unfolding deletePhase_def by (rule fold_delete_trace)












section \<open>The examples, evaluated\<close>

lemmas example_defs = exampleUsable_def examplePipelineStatus_def examplePipelineSpec_def
  emptyGitReleaseInfo_def noGitRelease_def exampleKey_def gitReleaseSpecToGitReleaseInfo_def

lemmas useCount_defs = updateUseCounts_def seedUseMap_def seedPipeline_def statusKey_def specKey_def
  statusVersions_def specVersions_def specPipeline_def setAdd_def incrementLoop_def incrementStep_def
  newUseMapValue_def useCountOf_def Let_def



lemma upgrade_counts:
  "case updateUseCounts exampleUsable exampleUsable (\<lambda>xs. xs) (\<lambda>xs. xs) upgradeSpec upgradeStatus of
     Inl err \<Rightarrow> False
   | Inr (m, cert) \<Rightarrow> useCountOf m (exampleKey ''/basic.pipeline.tar.gz'' ''01'') = Some 1"
  by (simp add: upgradeSpec_def upgradeStatus_def useCount_defs example_defs)





section \<open>Calls to the cluster\<close>

lemma clusterCalls_record_event [simp]:
  "clusterCalls (record_event ev st) = clusterCalls st @ (if isClusterCall ev then [ev] else [])"
  by (simp add: clusterCalls_def)

lemma clusterCalls_world_update [simp]: "clusterCalls (st\<lparr>world := w\<rparr>) = clusterCalls st"
  by (simp add: clusterCalls_def)

lemma isClusterCall_simps [simp]:
  "isClusterCall (CallGet gvk key)" "isClusterCall (CallUpdate u)" "isClusterCall (CallDelete u)"
  "isClusterCall (CallApply u)"
  "\<not> isClusterCall (LogIgnoringDelete a b c)"
  "\<not> isClusterCall (LogUnableToRetrieveAsset x a b c)"
  "\<not> isClusterCall (LogUnableToDeleteAsset x a b c)"
  "\<not> isClusterCall (LogUnableToDeleteOwner x a b c)"
  "\<not> isClusterCall (LogUnableToAddOwner x a)"
  "\<not> isClusterCall (LogUnableToCheckAsset x a)"
  "\<not> isClusterCall (LogManifestsNotAvailable err a)"
  "\<not> isClusterCall (LogResources us)"
  "\<not> isClusterCall (LogErrorTransforming x a)"
  "\<not> isClusterCall (LogApplyingResources us)"
  "\<not> isClusterCall (LogErrorInstalling x a)"
  by (simp_all add: isClusterCall_def)


lemmas fixture_defs = testEnv_def testGet_def testUpdate_def testDelete_def testCreate_def testApply_def
  testTransform_def ownersOf_def unstructuredKey_def NewNotFound_def taskKey_def sharedWorld_def
  ownWorld_def otherWorld_def taskAsset_def taskObject_def exampleAsset_def myOwner_def otherOwner_def
  emptyState_def assetGVK_def assetKey_def AssetStatusActive_def AssetStatusFailed_def
  AssetStatusUnknown_def Let_def

lemma shared_get:
  "client_Get testEnv (assetGVK taskAsset) (assetKey taskAsset) (world (emptyState sharedWorld))
   = (Inr (taskObject [myOwner, otherOwner]), sharedWorld)"
  by (simp add: fixture_defs)

lemma own_get:
  "client_Get testEnv (assetGVK taskAsset) (assetKey taskAsset) (world (emptyState ownWorld))
   = (Inr (taskObject [myOwner]), ownWorld)"
  by (simp add: fixture_defs)




lemma assetGVK_status [simp]: "assetGVK (asset\<lparr>as_Status := s, as_StatusMessage := msg\<rparr>) = assetGVK asset"
  and assetKey_status [simp]: "assetKey (asset\<lparr>as_Status := s, as_StatusMessage := msg\<rparr>) = assetKey asset"
  by (simp_all add: assetGVK_def assetKey_def)


section \<open>The claims\<close>

text \<open>
  C10.  For every status and spec, \<open>ActivatePipelines\<close> does not return the error
  ``Pipeline version not found in use map'': each member of the decrement set comes from
  a status entry that seeded the use map, so the lookup of the decrement loop finds its
  value, in whatever order Go ranges over the set.  \<open>ActivatePipelines\<close> then returns
  the use map and no error.
\<close>

theorem ActivatePipelines_version_found:
  assumes "rangeOrders e"
  shows "(\<exists>assetUseMap. fst (ActivatePipelines e spec status targetNamespace assetOwner st) = Inr assetUseMap)
         \<and> fst (ActivatePipelines e spec status targetNamespace assetOwner st) \<noteq> Inl (ErrVersionNotFound cur)"
proof -
  from assms have "\<forall>xs. set (orderDecrement e xs) \<subseteq> set xs"
    unfolding rangeOrders_def using mset_eq_setD by blast
  from updateUseCounts_total[OF this]
  obtain r where "updateUseCounts (statusUsable e) (specUsable e) (orderDecrement e) (orderIncrement e) spec status = Inr r"
    by blast
  then have "\<exists>assetUseMap. fst (ActivatePipelines e spec status targetNamespace assetOwner st) = Inr assetUseMap"
    by (cases r) (simp add: ActivatePipelines_def split: prod.splits)
  then show ?thesis by auto
qed

theorem ActivatePipelines_version_found_witness:
  "rangeOrders testEnv \<and>
   (\<exists>assetUseMap. fst (ActivatePipelines testEnv upgradeSpec upgradeStatus ''kabanero'' myOwner
                         (emptyState \<lparr>objs = [], files = []\<rparr>)) = Inr assetUseMap) \<and>
   statusVersions (statusUsable testEnv) upgradeStatus \<noteq> []"
  using ActivatePipelines_version_found[OF rangeOrders_testEnv, of upgradeSpec upgradeStatus "''kabanero''" myOwner
          "emptyState \<lparr>objs = [], files = []\<rparr>"]
  by (simp add: rangeOrders_testEnv statusVersions_def upgradeStatus_def setAdd_def)






text \<open>
  C5.  For every asset, \<open>DeleteAsset\<close> returns success without a call to the cluster
  when the recorded status of the asset is failed or unknown.  Otherwise it reads the
  live object; when the object is not found it returns success after that one read; when
  the object is there it drops exactly the owner references that carry the UID of the
  reconciling stack's owner, and deletes the object if no owner reference is left, or
  else updates it with the owner references that are left.  What the delete or the
  update answers is what \<open>DeleteAsset\<close> returns.
\<close>

theorem DeleteAsset_owner_references:
  "(as_Status asset = AssetStatusUnknown \<or> as_Status asset = AssetStatusFailed \<longrightarrow>
      fst (DeleteAsset e asset assetOwner st) = None \<and>
      world (snd (DeleteAsset e asset assetOwner st)) = world st \<and>
      clusterCalls (snd (DeleteAsset e asset assetOwner st)) = clusterCalls st) \<and>
   (as_Status asset \<noteq> AssetStatusUnknown \<and> as_Status asset \<noteq> AssetStatusFailed \<longrightarrow>
      (\<forall>err w. client_Get e (assetGVK asset) (assetKey asset) (world st) = (Inl err, w) \<and> IsNotFound err \<longrightarrow>
         fst (DeleteAsset e asset assetOwner st) = None \<and>
         world (snd (DeleteAsset e asset assetOwner st)) = w \<and>
         clusterCalls (snd (DeleteAsset e asset assetOwner st))
           = clusterCalls st @ [CallGet (assetGVK asset) (assetKey asset)]) \<and>
      (\<forall>u w. client_Get e (assetGVK asset) (assetKey asset) (world st) = (Inr u, w) \<longrightarrow>
         (if filter (\<lambda>ownerRef. UID ownerRef \<noteq> UID assetOwner) (u_OwnerReferences u) = []
          then clusterCalls (snd (DeleteAsset e asset assetOwner st))
                 = clusterCalls st @ [CallGet (assetGVK asset) (assetKey asset), CallDelete u] \<and>
               world (snd (DeleteAsset e asset assetOwner st)) = snd (client_Delete e u w) \<and>
               fst (DeleteAsset e asset assetOwner st)
                 = map_option ErrExternal (fst (client_Delete e u w))
          else clusterCalls (snd (DeleteAsset e asset assetOwner st))
                 = clusterCalls st @
                   [CallGet (assetGVK asset) (assetKey asset),
                    CallUpdate (u\<lparr>u_OwnerReferences :=
                       filter (\<lambda>ownerRef. UID ownerRef \<noteq> UID assetOwner) (u_OwnerReferences u)\<rparr>)] \<and>
               world (snd (DeleteAsset e asset assetOwner st))
                 = snd (client_Update e (u\<lparr>u_OwnerReferences :=
                       filter (\<lambda>ownerRef. UID ownerRef \<noteq> UID assetOwner) (u_OwnerReferences u)\<rparr>) w) \<and>
               fst (DeleteAsset e asset assetOwner st)
                 = map_option ErrExternal (fst (client_Update e (u\<lparr>u_OwnerReferences :=
                       filter (\<lambda>ownerRef. UID ownerRef \<noteq> UID assetOwner) (u_OwnerReferences u)\<rparr>) w)))))"
  unfolding DeleteAsset_def
  by (auto simp: Let_def split: prod.splits option.splits)


theorem DeleteAsset_owner_references_witness:
  "clusterCalls (snd (DeleteAsset testEnv taskAsset myOwner (emptyState sharedWorld)))
     = [CallGet (assetGVK taskAsset) (assetKey taskAsset), CallUpdate (taskObject [otherOwner])] \<and>
   objs (world (snd (DeleteAsset testEnv taskAsset myOwner (emptyState sharedWorld))))
     = [(taskKey, [otherOwner])] \<and>
   clusterCalls (snd (DeleteAsset testEnv taskAsset myOwner (emptyState ownWorld)))
     = [CallGet (assetGVK taskAsset) (assetKey taskAsset), CallDelete (taskObject [myOwner])] \<and>
   objs (world (snd (DeleteAsset testEnv taskAsset myOwner (emptyState ownWorld)))) = [] \<and>
   clusterCalls (snd (DeleteAsset testEnv (taskAsset\<lparr>as_Status := AssetStatusFailed\<rparr>) myOwner
                       (emptyState ownWorld))) = []"
proof -
  have st: "as_Status taskAsset \<noteq> AssetStatusUnknown \<and> as_Status taskAsset \<noteq> AssetStatusFailed"
    by (simp add: fixture_defs)
  note T = DeleteAsset_owner_references[of taskAsset testEnv myOwner]
  from T[of "emptyState sharedWorld"] st shared_get
  have a: "clusterCalls (snd (DeleteAsset testEnv taskAsset myOwner (emptyState sharedWorld)))
     = [CallGet (assetGVK taskAsset) (assetKey taskAsset), CallUpdate (taskObject [otherOwner])] \<and>
   objs (world (snd (DeleteAsset testEnv taskAsset myOwner (emptyState sharedWorld))))
     = [(taskKey, [otherOwner])]"
    by (simp add: fixture_defs clusterCalls_def)
  from T[of "emptyState ownWorld"] st own_get
  have b: "clusterCalls (snd (DeleteAsset testEnv taskAsset myOwner (emptyState ownWorld)))
     = [CallGet (assetGVK taskAsset) (assetKey taskAsset), CallDelete (taskObject [myOwner])] \<and>
   objs (world (snd (DeleteAsset testEnv taskAsset myOwner (emptyState ownWorld)))) = []"
    by (simp add: fixture_defs clusterCalls_def)
  from DeleteAsset_owner_references[of "taskAsset\<lparr>as_Status := AssetStatusFailed\<rparr>" testEnv myOwner "emptyState ownWorld"]
  have c: "clusterCalls (snd (DeleteAsset testEnv (taskAsset\<lparr>as_Status := AssetStatusFailed\<rparr>) myOwner
                       (emptyState ownWorld))) = []"
    by (simp add: emptyState_def clusterCalls_def)
  from a b c show ?thesis by simp
qed




end
